theory Spec2Isabelle
  imports Main
begin

section \<open>Python values, exceptions and results\<close>

text \<open>
  The agent of \<^verbatim>\<open>examples/simple_agent.py\<close> handles the values that
  \<^verbatim>\<open>json.loads\<close> produces: \<^verbatim>\<open>None\<close>, booleans, integers, strings, lists and
  dictionaries with string keys. A dictionary is an association list in insertion order.
  A \<open>char\<close> stands for one character of a Python \<^verbatim>\<open>str\<close> (code points below 256).
  A finite float is carried as its \<^verbatim>\<open>repr\<close>, which identifies it; floating-point
  arithmetic is not described.
\<close>

datatype pyval =
    PNone
  | PBool bool
  | PInt int
  | PFloat string
  | PStr string
  | PList "pyval list"
  | PDict "(string \<times> pyval) list"

text \<open>
  An exception is identified by its class and by \<^verbatim>\<open>str(e)\<close>. The text is \<open>None\<close>
  where the interpreter composes it and the program never reads it.
\<close>

datatype exc_class =
    KeyError
  | IndexError
  | TypeError
  | SyntaxError
  | ZeroDivisionError
  | JSONDecodeError
  | RequestException
  | SystemExit
  | Exception

datatype py_exception = PyExc exc_class "string option"

text \<open>
  \<^verbatim>\<open>except Exception\<close> catches every class derived from \<^verbatim>\<open>Exception\<close>;
  \<^verbatim>\<open>SystemExit\<close> derives from \<^verbatim>\<open>BaseException\<close> only.
\<close>

fun is_Exception :: "exc_class \<Rightarrow> bool" where
  "is_Exception SystemExit = False"
| "is_Exception _ = True"

text \<open>
  A call returns a value, raises, or leaves the part of Python that this theory
  describes (\<open>Outside\<close>: nothing is said about such a run).
\<close>

datatype 'a result = Returns 'a | Raises py_exception | Outside

fun and_then :: "'a result \<Rightarrow> ('a \<Rightarrow> 'b result) \<Rightarrow> 'b result" where
  "and_then (Returns x) f = f x"
| "and_then (Raises e) f = Raises e"
| "and_then Outside f = Outside"

subsection \<open>Subscripting and formatting\<close>

text \<open>Python sequence indexing: a negative index counts from the end.\<close>

definition seq_index :: "'a list \<Rightarrow> int \<Rightarrow> 'a result" where
  "seq_index xs i =
     (if 0 \<le> i \<and> i < int (length xs) then Returns (xs ! nat i)
      else if i < 0 \<and> - int (length xs) \<le> i then Returns (xs ! nat (int (length xs) + i))
      else Raises (PyExc IndexError None))"

text \<open>
  \<^verbatim>\<open>repr\<close> of a string of printable ASCII characters without quote or backslash:
  the string between single quotes. Other strings are not described.
\<close>

definition repr_str :: "string \<Rightarrow> string option" where
  "repr_str s =
     (if \<forall>c \<in> set s. 32 \<le> (of_char c :: nat) \<and> (of_char c :: nat) \<le> 126
                      \<and> c \<noteq> CHR 0x27 \<and> c \<noteq> CHR 0x5C
      then Some ([CHR 0x27] @ s @ [CHR 0x27]) else None)"

text \<open>
  \<^verbatim>\<open>obj[key]\<close>. A dictionary raises \<^verbatim>\<open>KeyError(key)\<close> for a missing key, whose
  \<^verbatim>\<open>str\<close> is the \<^verbatim>\<open>repr\<close> of the key, and \<^verbatim>\<open>TypeError\<close> for an unhashable one.
  \<^verbatim>\<open>bool\<close> is a subclass of \<^verbatim>\<open>int\<close> and indexes a sequence as 0 or 1.
\<close>

fun py_getitem :: "pyval \<Rightarrow> pyval \<Rightarrow> pyval result" where
  "py_getitem (PDict kvs) (PStr k) =
     (case map_of kvs k of
        Some v \<Rightarrow> Returns v
      | None \<Rightarrow> Raises (PyExc KeyError (repr_str k)))"
| "py_getitem (PDict kvs) (PList _) = Raises (PyExc TypeError None)"
| "py_getitem (PDict kvs) (PDict _) = Raises (PyExc TypeError None)"
| "py_getitem (PDict kvs) _ = Raises (PyExc KeyError None)"
| "py_getitem (PList xs) (PInt i) = seq_index xs i"
| "py_getitem (PList xs) (PBool b) = seq_index xs (if b then 1 else 0)"
| "py_getitem (PList xs) _ = Raises (PyExc TypeError None)"
| "py_getitem (PStr s) (PInt i) = and_then (seq_index s i) (\<lambda>c. Returns (PStr [c]))"
| "py_getitem (PStr s) (PBool b) =
     and_then (seq_index s (if b then 1 else 0)) (\<lambda>c. Returns (PStr [c]))"
| "py_getitem (PStr s) _ = Raises (PyExc TypeError None)"
| "py_getitem _ _ = Raises (PyExc TypeError None)"

text \<open>
  \<^verbatim>\<open>str(n)\<close> for an integer: decimal digits, with a minus sign for a negative one.
\<close>

definition digit_char :: "nat \<Rightarrow> char" where
  "digit_char d = char_of (48 + d)"

fun str_nat :: "nat \<Rightarrow> string" where
  "str_nat n = (if n < 10 then [digit_char n] else str_nat (n div 10) @ [digit_char (n mod 10)])"

declare str_nat.simps [simp del]

definition str_int :: "int \<Rightarrow> string" where
  "str_int i = (if i < 0 then CHR ''-'' # str_nat (nat (- i)) else str_nat (nat i))"

text \<open>
  What an f-string puts in for \<^verbatim>\<open>{value}\<close>, which is \<^verbatim>\<open>str(value)\<close>. The
  \<^verbatim>\<open>repr\<close> of a list or a dictionary is not described.
\<close>

fun py_str :: "pyval \<Rightarrow> string result" where
  "py_str (PStr s) = Returns s"
| "py_str PNone = Returns ''None''"
| "py_str (PBool b) = Returns (if b then ''True'' else ''False'')"
| "py_str (PInt i) = Returns (str_int i)"
| "py_str (PFloat r) = Returns r"
| "py_str (PList _) = Outside"
| "py_str (PDict _) = Outside"

section \<open>The builtin \<^verbatim>\<open>eval\<close> on arithmetic expressions\<close>

text \<open>
  \<^verbatim>\<open>calculate\<close> hands its argument to Python's \<^verbatim>\<open>eval\<close>. The theory describes
  \<^verbatim>\<open>eval\<close> on short expressions built from decimal integer literals, the operators
  \<^verbatim>\<open>+ - * / // %\<close>, parentheses, blanks, the statement \<^verbatim>\<open>import NAME\<close> and the
  calls \<^verbatim>\<open>exit()\<close> and \<^verbatim>\<open>quit()\<close>; every other input is \<open>Outside\<close>.
\<close>

datatype token =
    TNum nat
  | TName string
  | TPlus | TMinus | TStar | TSlash | TDoubleSlash | TPercent | TDoubleStar
  | TLParen | TRParen

definition is_digit :: "char \<Rightarrow> bool" where
  "is_digit c = (c \<in> set ''0123456789'')"

definition is_name_start :: "char \<Rightarrow> bool" where
  "is_name_start c =
     (c \<in> set ''abcdefghijklmnopqrstuvwxyzABCDEFGHIJKLMNOPQRSTUVWXYZ_'')"

definition is_name_char :: "char \<Rightarrow> bool" where
  "is_name_char c = (is_name_start c \<or> is_digit c)"

definition digit_val :: "char \<Rightarrow> nat" where
  "digit_val c = of_char c - 48"

text \<open>
  A decimal literal. Python refuses a literal with a leading zero unless all its digits
  are zero; the refusal's text depends on the interpreter, so it is not described.
\<close>

definition num_of :: "string \<Rightarrow> nat option" where
  "num_of ds =
     (if length ds > 1 \<and> hd ds = CHR ''0'' \<and> (\<exists>d \<in> set ds. d \<noteq> CHR ''0'') then None
      else Some (foldl (\<lambda>acc d. 10 * acc + digit_val d) 0 ds))"

fun cons_token :: "token \<Rightarrow> token list option \<Rightarrow> token list option" where
  "cons_token t None = None"
| "cons_token t (Some ts) = Some (t # ts)"

function tokenize :: "string \<Rightarrow> token list option" where
  "tokenize [] = Some []"
| "tokenize (c # cs) =
     (if c = CHR '' '' \<or> c = CHR 0x09 then tokenize cs
      else if is_digit c then
        (case num_of (c # takeWhile is_digit cs) of
           None \<Rightarrow> None
         | Some n \<Rightarrow> cons_token (TNum n) (tokenize (dropWhile is_digit cs)))
      else if is_name_start c then
        cons_token (TName (c # takeWhile is_name_char cs))
          (tokenize (dropWhile is_name_char cs))
      else if c = CHR ''+'' then cons_token TPlus (tokenize cs)
      else if c = CHR ''-'' then cons_token TMinus (tokenize cs)
      else if c = CHR ''%'' then cons_token TPercent (tokenize cs)
      else if c = CHR ''('' then cons_token TLParen (tokenize cs)
      else if c = CHR '')'' then cons_token TRParen (tokenize cs)
      else if c = CHR ''*'' then
        (case cs of
           d # ds \<Rightarrow> if d = CHR ''*'' then cons_token TDoubleStar (tokenize ds)
                      else cons_token TStar (tokenize cs)
         | [] \<Rightarrow> cons_token TStar (tokenize cs))
      else if c = CHR ''/'' then
        (case cs of
           d # ds \<Rightarrow> if d = CHR ''/'' then cons_token TDoubleSlash (tokenize ds)
                      else cons_token TSlash (tokenize cs)
         | [] \<Rightarrow> cons_token TSlash (tokenize cs))
      else None)"
  by pat_completeness auto
termination
  by (relation "measure length") (auto simp: less_Suc_eq_le length_dropWhile_le)

datatype binop = Add | Sub | Mult | Div | FloorDiv | Mod

datatype expr =
    Num nat
  | UAdd expr
  | USub expr
  | BinOp expr binop expr
  | Call0 string

text \<open>
  Recursive descent along Python's grammar
  \<^verbatim>\<open>arith_expr: term (('+'|'-') term)*\<close>,
  \<^verbatim>\<open>term: factor (('*'|'/'|'%'|'//') factor)*\<close>,
  \<^verbatim>\<open>factor: ('+'|'-') factor | atom\<close>,
  \<^verbatim>\<open>atom: NUMBER | '(' arith_expr ')' | NAME '(' ')'\<close>.
  \<open>NArithRest l\<close> and \<open>NTermRest l\<close> are the starred loops, with the operand \<open>l\<close> read
  so far. The first argument bounds the depth of the descent; running out of it gives
  \<open>None\<close>.
\<close>

datatype parse_goal = NArith | NArithRest expr | NTerm | NTermRest expr | NFactor | NAtom

definition term_op :: "token \<Rightarrow> binop" where
  "term_op t =
     (if t = TStar then Mult else if t = TSlash then Div
      else if t = TDoubleSlash then FloorDiv else Mod)"

primrec parse :: "nat \<Rightarrow> parse_goal \<Rightarrow> token list \<Rightarrow> (expr \<times> token list) option" where
  "parse 0 nt ts = None"
| "parse (Suc n) nt ts =
     (case nt of
        NArith \<Rightarrow>
          (case parse n NTerm ts of
             None \<Rightarrow> None
           | Some (l, rest) \<Rightarrow> parse n (NArithRest l) rest)
      | NArithRest l \<Rightarrow>
          (if ts \<noteq> [] \<and> (hd ts = TPlus \<or> hd ts = TMinus) then
             (case parse n NTerm (tl ts) of
                None \<Rightarrow> None
              | Some (r, rest) \<Rightarrow>
                  parse n (NArithRest (BinOp l (if hd ts = TPlus then Add else Sub) r)) rest)
           else Some (l, ts))
      | NTerm \<Rightarrow>
          (case parse n NFactor ts of
             None \<Rightarrow> None
           | Some (l, rest) \<Rightarrow> parse n (NTermRest l) rest)
      | NTermRest l \<Rightarrow>
          (if ts \<noteq> [] \<and> hd ts \<in> set [TStar, TSlash, TDoubleSlash, TPercent] then
             (case parse n NFactor (tl ts) of
                None \<Rightarrow> None
              | Some (r, rest) \<Rightarrow> parse n (NTermRest (BinOp l (term_op (hd ts)) r)) rest)
           else Some (l, ts))
      | NFactor \<Rightarrow>
          (if ts \<noteq> [] \<and> (hd ts = TPlus \<or> hd ts = TMinus) then
             (case parse n NFactor (tl ts) of
                None \<Rightarrow> None
              | Some (e, rest) \<Rightarrow> Some (if hd ts = TPlus then UAdd e else USub e, rest))
           else parse n NAtom ts)
      | NAtom \<Rightarrow>
          (case ts of
             TNum k # rest \<Rightarrow> Some (Num k, rest)
           | TLParen # inner \<Rightarrow>
               (case parse n NArith inner of
                  None \<Rightarrow> None
                | Some (e, rest) \<Rightarrow>
                    if rest \<noteq> [] \<and> hd rest = TRParen then Some (e, tl rest) else None)
           | TName f # rest \<Rightarrow>
               if (f = ''exit'' \<or> f = ''quit'') \<and> take 2 rest = [TLParen, TRParen]
               then Some (Call0 f, drop 2 rest) else None
           | _ \<Rightarrow> None))"

text \<open>
  Integer arithmetic. \<^verbatim>\<open>/\<close> is true division: it raises for a zero divisor and
  gives a float otherwise, which is \<open>Outside\<close>. \<^verbatim>\<open>//\<close> and \<^verbatim>\<open>%\<close> round towards
  minus infinity, as \<open>div\<close> and \<open>mod\<close> on \<open>int\<close> do; the text of their
  \<^verbatim>\<open>ZeroDivisionError\<close> depends on the interpreter.
\<close>

definition apply_op :: "binop \<Rightarrow> int \<Rightarrow> int \<Rightarrow> int result" where
  "apply_op op a b =
     (case op of
        Add \<Rightarrow> Returns (a + b)
      | Sub \<Rightarrow> Returns (a - b)
      | Mult \<Rightarrow> Returns (a * b)
      | Div \<Rightarrow>
          if b = 0 then Raises (PyExc ZeroDivisionError (Some ''division by zero''))
          else Outside
      | FloorDiv \<Rightarrow>
          if b = 0 then Raises (PyExc ZeroDivisionError None) else Returns (a div b)
      | Mod \<Rightarrow>
          if b = 0 then Raises (PyExc ZeroDivisionError None) else Returns (a mod b))"

text \<open>
  Operands are evaluated left to right, and the first exception ends the evaluation.
  \<^verbatim>\<open>exit\<close> and \<^verbatim>\<open>quit\<close> are the objects that the \<^verbatim>\<open>site\<close> module puts into the
  builtins; neither \<^verbatim>\<open>calculate\<close>'s locals nor the module's globals shadow them, and
  calling one raises \<^verbatim>\<open>SystemExit(None)\<close>.
\<close>

fun eval_expr :: "expr \<Rightarrow> int result" where
  "eval_expr (Num k) = Returns (int k)"
| "eval_expr (UAdd e) = eval_expr e"
| "eval_expr (USub e) =
     (case eval_expr e of
        Returns v \<Rightarrow> Returns (- v)
      | Raises x \<Rightarrow> Raises x
      | Outside \<Rightarrow> Outside)"
| "eval_expr (BinOp l op r) =
     (case eval_expr l of
        Returns a \<Rightarrow>
          (case eval_expr r of
             Returns b \<Rightarrow> apply_op op a b
           | Raises x \<Rightarrow> Raises x
           | Outside \<Rightarrow> Outside)
      | Raises x \<Rightarrow> Raises x
      | Outside \<Rightarrow> Outside)"
| "eval_expr (Call0 f) = Raises (PyExc SystemExit (Some ''None''))"

text \<open>
  \<^verbatim>\<open>eval(source)\<close> for a string. An \<^verbatim>\<open>import\<close> statement is not an expression, so
  compiling it raises \<^verbatim>\<open>SyntaxError\<close>. Inputs longer than 64 characters are left out,
  so that the interpreter's limits on nesting and on the digits of a literal are never
  met.
\<close>

definition syntax_error_text :: string where
  "syntax_error_text = ''invalid syntax (<string>, line 1)''"

definition eval_source :: "string \<Rightarrow> pyval result" where
  "eval_source source =
     (if length source > 64 then Outside
      else case tokenize source of
        None \<Rightarrow> Outside
      | Some ts \<Rightarrow>
          (case ts of
             [TName a, TName b] \<Rightarrow>
               if a = ''import'' then Raises (PyExc SyntaxError (Some syntax_error_text))
               else Outside
           | _ \<Rightarrow>
               (case parse (4 * length ts + 4) NArith ts of
                  Some (e, []) \<Rightarrow> and_then (eval_expr e) (\<lambda>v. Returns (PInt v))
                | _ \<Rightarrow> Outside)))"

text \<open>\<^verbatim>\<open>eval\<close> of anything that json can deliver other than a string is a \<^verbatim>\<open>TypeError\<close>.\<close>

fun py_eval :: "pyval \<Rightarrow> pyval result" where
  "py_eval (PStr source) = eval_source source"
| "py_eval _ =
     Raises (PyExc TypeError (Some ''eval() arg 1 must be a string, bytes or code object''))"

section \<open>The tools\<close>

text \<open>
  \<^verbatim>\<open>search_web(self, query)\<close>: the f-string formats \<^verbatim>\<open>query\<close> with \<^verbatim>\<open>str\<close>.
\<close>

definition search_web :: "pyval \<Rightarrow> pyval result" where
  "search_web query =
     and_then (py_str query) (\<lambda>q.
       Returns (PDict [(''result'', PStr (''Simulated search results for: '' @ q)),
                       (''source'', PStr ''web_search_simulation'')]))"

text \<open>
  \<^verbatim>\<open>calculate(self, expression)\<close>: \<^verbatim>\<open>try: result = eval(expression)\<close>, and
  \<^verbatim>\<open>except Exception as e: return {"error": str(e)}\<close>. An exception that is not an
  \<^verbatim>\<open>Exception\<close> passes through the handler.
\<close>

definition calculate :: "pyval \<Rightarrow> pyval result" where
  "calculate expression =
     (case py_eval expression of
        Returns v \<Rightarrow> Returns (PDict [(''result'', v)])
      | Raises (PyExc cls detail) \<Rightarrow>
          if is_Exception cls then
            (case detail of
               Some s \<Rightarrow> Returns (PDict [(''error'', PStr s)])
             | None \<Rightarrow> Outside)
          else Raises (PyExc cls detail)
      | Outside \<Rightarrow> Outside)"

text \<open>\<^verbatim>\<open>get_weather(self, location)\<close>; the temperature text is \<^verbatim>\<open>72\<close>, a degree sign, \<^verbatim>\<open>F\<close>.\<close>

definition get_weather :: "pyval \<Rightarrow> pyval result" where
  "get_weather location =
     Returns (PDict [(''location'', location),
                     (''temperature'', PStr (''72'' @ [char_of (176::nat)] @ ''F'')),
                     (''conditions'', PStr ''Sunny''),
                     (''source'', PStr ''weather_simulation'')])"

text \<open>
  A registered tool is a bound method of one parameter, called as
  \<^verbatim>\<open>tool(**parameters)\<close>: the call raises \<^verbatim>\<open>TypeError\<close> unless \<^verbatim>\<open>parameters\<close> is a
  mapping whose only key is the parameter's name.
\<close>

record tool =
  param :: string
  body :: "pyval \<Rightarrow> pyval result"

type_synonym registry = "string \<rightharpoonup> tool"

definition call_tool :: "tool \<Rightarrow> pyval \<Rightarrow> pyval result" where
  "call_tool t parameters =
     (case parameters of
        PDict kvs \<Rightarrow>
          (case kvs of
             [(k, v)] \<Rightarrow> if k = param t then body t v else Raises (PyExc TypeError None)
           | _ \<Rightarrow> Raises (PyExc TypeError None))
      | _ \<Rightarrow> Raises (PyExc TypeError None))"

text \<open>\<^verbatim>\<open>self.tools\<close> as \<^verbatim>\<open>__init__\<close> fills it.\<close>

definition agent_tools :: registry where
  "agent_tools =
     [''search_web'' \<mapsto> \<lparr>param = ''query'', body = search_web\<rparr>,
      ''calculate'' \<mapsto> \<lparr>param = ''expression'', body = calculate\<rparr>,
      ''get_weather'' \<mapsto> \<lparr>param = ''location'', body = get_weather\<rparr>]"

section \<open>The json module\<close>

subsection \<open>\<^verbatim>\<open>json.loads\<close>\<close>

text \<open>
  The decoder on texts without \<^verbatim>\<open>\u\<close> escapes and without float literals; a text
  that uses them, or that the decoder rejects after its first character, is
  \<open>Outside\<close>.
\<close>

definition skip_ws :: "string \<Rightarrow> string" where
  "skip_ws s = dropWhile (\<lambda>c. c \<in> set [CHR '' '', CHR 0x09, CHR 0x0A, CHR 0x0D]) s"

definition starts_with :: "char \<Rightarrow> string \<Rightarrow> bool" where
  "starts_with c s = (s \<noteq> [] \<and> hd s = c)"

text \<open>
  The characters of a string up to its closing quote, and what follows it. Of the
  escapes, \<^verbatim>\<open>\u\<close> is not described.
\<close>

definition unescape :: "char \<Rightarrow> char option" where
  "unescape c =
     (if c = CHR 0x22 \<or> c = CHR 0x5C \<or> c = CHR ''/'' then Some c
      else if c = CHR ''b'' then Some (CHR 0x08)
      else if c = CHR ''f'' then Some (CHR 0x0C)
      else if c = CHR ''n'' then Some (CHR 0x0A)
      else if c = CHR ''r'' then Some (CHR 0x0D)
      else if c = CHR ''t'' then Some (CHR 0x09)
      else None)"

fun scan_string :: "string \<Rightarrow> (string \<times> string) option" where
  "scan_string [] = None"
| "scan_string [c] = (if c = CHR 0x22 then Some ([], []) else None)"
| "scan_string (c # d # cs) =
     (if c = CHR 0x22 then Some ([], d # cs)
      else if c = CHR 0x5C then
        (case unescape d of
           None \<Rightarrow> None
         | Some e \<Rightarrow>
             (case scan_string cs of
                None \<Rightarrow> None
              | Some (str, rest) \<Rightarrow> Some (e # str, rest)))
      else if of_char c < (32::nat) then None
      else (case scan_string (d # cs) of
              None \<Rightarrow> None
            | Some (str, rest) \<Rightarrow> Some (c # str, rest)))"

text \<open>
  An integer literal \<^verbatim>\<open>-?(0|[1-9][0-9]*)\<close>. A fraction or an exponent makes a float;
  from Python 3.11 on, \<^verbatim>\<open>int\<close> refuses more than 4300 digits.
\<close>

definition scan_digits :: "string \<Rightarrow> (nat \<times> string) option" where
  "scan_digits s =
     (let ds = takeWhile is_digit s; rest = dropWhile is_digit s
      in if ds = [] \<or> (length ds > 1 \<and> hd ds = CHR ''0'') \<or> length ds > 4300
            \<or> starts_with CHR ''.'' rest \<or> starts_with CHR ''e'' rest
            \<or> starts_with CHR ''E'' rest
         then None
         else Some (foldl (\<lambda>acc d. 10 * acc + digit_val d) 0 ds, rest))"

definition scan_number :: "string \<Rightarrow> (pyval \<times> string) option" where
  "scan_number s =
     (if starts_with CHR ''-'' s then
        (case scan_digits (tl s) of
           None \<Rightarrow> None
         | Some (n, rest) \<Rightarrow> Some (PInt (- int n), rest))
      else
        (case scan_digits s of
           None \<Rightarrow> None
         | Some (n, rest) \<Rightarrow> Some (PInt (int n), rest)))"

text \<open>
  \<^verbatim>\<open>d[key] = value\<close>: a key that is already there keeps its place and takes the new
  value.
\<close>

definition dict_set :: "(string \<times> pyval) list \<Rightarrow> string \<Rightarrow> pyval \<Rightarrow> (string \<times> pyval) list" where
  "dict_set kvs k v =
     (if k \<in> set (map fst kvs) then map (\<lambda>kv. if fst kv = k then (k, v) else kv) kvs
      else kvs @ [(k, v)])"

text \<open>
  \<open>JMembers kvs\<close> reads the members of an object from a key on, \<open>JElements xs\<close> the
  elements of an array from a value on, after those read so far. The first argument
  bounds the number of nested calls.
\<close>

datatype json_goal = JValue | JMembers "(string \<times> pyval) list" | JElements "pyval list"

primrec scan_once :: "nat \<Rightarrow> json_goal \<Rightarrow> string \<Rightarrow> (pyval \<times> string) option" where
  "scan_once 0 goal s = None"
| "scan_once (Suc n) goal s =
     (case goal of
        JValue \<Rightarrow>
          (if starts_with CHR 0x22 s then
             (case scan_string (tl s) of
                None \<Rightarrow> None
              | Some (str, rest) \<Rightarrow> Some (PStr str, rest))
           else if starts_with CHR ''{'' s then
             (if starts_with CHR ''}'' (skip_ws (tl s))
              then Some (PDict [], tl (skip_ws (tl s)))
              else scan_once n (JMembers []) (skip_ws (tl s)))
           else if starts_with CHR ''['' s then
             (if starts_with CHR '']'' (skip_ws (tl s))
              then Some (PList [], tl (skip_ws (tl s)))
              else scan_once n (JElements []) (skip_ws (tl s)))
           else if take 4 s = ''null'' then Some (PNone, drop 4 s)
           else if take 4 s = ''true'' then Some (PBool True, drop 4 s)
           else if take 5 s = ''false'' then Some (PBool False, drop 5 s)
           else scan_number s)
      | JMembers kvs \<Rightarrow>
          (if starts_with CHR 0x22 s then
             (case scan_string (tl s) of
                None \<Rightarrow> None
              | Some (key, rest) \<Rightarrow>
                  if starts_with CHR '':'' (skip_ws rest) then
                    (case scan_once n JValue (skip_ws (tl (skip_ws rest))) of
                       None \<Rightarrow> None
                     | Some (v, rest') \<Rightarrow>
                         if starts_with CHR ''}'' (skip_ws rest')
                         then Some (PDict (dict_set kvs key v), tl (skip_ws rest'))
                         else if starts_with CHR '','' (skip_ws rest')
                         then scan_once n (JMembers (dict_set kvs key v))
                                (skip_ws (tl (skip_ws rest')))
                         else None)
                  else None)
           else None)
      | JElements xs \<Rightarrow>
          (case scan_once n JValue s of
             None \<Rightarrow> None
           | Some (v, rest) \<Rightarrow>
               if starts_with CHR '']'' (skip_ws rest)
               then Some (PList (xs @ [v]), tl (skip_ws rest))
               else if starts_with CHR '','' (skip_ws rest)
               then scan_once n (JElements (xs @ [v])) (skip_ws (tl (skip_ws rest)))
               else None))"

text \<open>How deep the lists and dictionaries of a value are nested.\<close>

fun depth :: "pyval \<Rightarrow> nat" where
  "depth (PList xs) = Suc (foldr max (map depth xs) 0)"
| "depth (PDict kvs) = Suc (foldr max (map (\<lambda>kv. depth (snd kv)) kvs) 0)"
| "depth _ = 0"

text \<open>
  \<^verbatim>\<open>JSONDecoder.decode\<close>: blanks, one value, blanks, the end. A text whose first
  character cannot begin a value raises \<^verbatim>\<open>JSONDecodeError\<close> (\<^verbatim>\<open>N\<close> and \<^verbatim>\<open>I\<close> begin
  \<^verbatim>\<open>NaN\<close> and \<^verbatim>\<open>Infinity\<close>). Values nested deeper than 100 are left out, short of the
  interpreter's recursion limit.
\<close>

definition begins_value :: "string \<Rightarrow> bool" where
  "begins_value s = (s \<noteq> [] \<and> (hd s \<in> set ''{[-0123456789tfnNI'' \<or> hd s = CHR 0x22))"

definition json_decode :: "string \<Rightarrow> pyval result" where
  "json_decode s =
     (if \<not> begins_value (skip_ws s) then Raises (PyExc JSONDecodeError None)
      else (case scan_once (2 * length (skip_ws s) + 2) JValue (skip_ws s) of
              None \<Rightarrow> Outside
            | Some (v, rest) \<Rightarrow>
                if skip_ws rest = [] \<and> depth v \<le> 100 then Returns v else Outside))"

text \<open>\<^verbatim>\<open>json.loads(s)\<close> raises \<^verbatim>\<open>TypeError\<close> unless \<^verbatim>\<open>s\<close> is a string.\<close>

fun json_loads :: "pyval \<Rightarrow> pyval result" where
  "json_loads (PStr s) = json_decode s"
| "json_loads _ = Raises (PyExc TypeError None)"

subsection \<open>\<^verbatim>\<open>json.dumps\<close>\<close>

text \<open>
  The encoder with its defaults: \<^verbatim>\<open>ensure_ascii\<close>, and the separators \<^verbatim>\<open>", "\<close> and
  \<^verbatim>\<open>": "\<close>. A float is written as its \<^verbatim>\<open>repr\<close>.
\<close>

definition hex_char :: "nat \<Rightarrow> char" where
  "hex_char d = ''0123456789abcdef'' ! d"

definition json_escape :: "char \<Rightarrow> string" where
  "json_escape c =
     (if c = CHR 0x22 then [CHR 0x5C, CHR 0x22]
      else if c = CHR 0x5C then [CHR 0x5C, CHR 0x5C]
      else if c = CHR 0x0A then [CHR 0x5C, CHR ''n'']
      else if c = CHR 0x0D then [CHR 0x5C, CHR ''r'']
      else if c = CHR 0x09 then [CHR 0x5C, CHR ''t'']
      else if c = CHR 0x08 then [CHR 0x5C, CHR ''b'']
      else if c = CHR 0x0C then [CHR 0x5C, CHR ''f'']
      else if 32 \<le> (of_char c :: nat) \<and> (of_char c :: nat) \<le> 126 then [c]
      else [CHR 0x5C, CHR ''u'', CHR ''0'', CHR ''0'',
            hex_char (of_char c div 16), hex_char (of_char c mod 16)])"

definition encode_str :: "string \<Rightarrow> string" where
  "encode_str s = CHR 0x22 # concat (map json_escape s) @ [CHR 0x22]"

fun join :: "string \<Rightarrow> string list \<Rightarrow> string" where
  "join sep [] = []"
| "join sep [x] = x"
| "join sep (x # y # ys) = x @ sep @ join sep (y # ys)"

fun json_encode :: "pyval \<Rightarrow> string" where
  "json_encode PNone = ''null''"
| "json_encode (PBool b) = (if b then ''true'' else ''false'')"
| "json_encode (PInt i) = str_int i"
| "json_encode (PFloat r) = r"
| "json_encode (PStr s) = encode_str s"
| "json_encode (PList xs) = ''['' @ join '', '' (map json_encode xs) @ '']''"
| "json_encode (PDict kvs) =
     ''{'' @ join '', '' (map (\<lambda>kv. encode_str (fst kv) @ '': '' @ json_encode (snd kv)) kvs)
       @ ''}''"

text \<open>Values nested deeper than 200 are left out, short of the recursion limit.\<close>

definition json_dumps :: "pyval \<Rightarrow> string result" where
  "json_dumps v = (if depth v > 200 then Outside else Returns (json_encode v))"

section \<open>The language-model client\<close>

text \<open>
  \<^verbatim>\<open>requests.post(url, headers=headers, json=data)\<close> is the transport: a function
  from the request to the response, or to the exception that \<^verbatim>\<open>requests\<close> raises.
  \<^verbatim>\<open>response.json()\<close> decodes the body text.
\<close>

record request =
  url :: string
  headers :: "(string \<times> string) list"
  json :: pyval

record response =
  status_code :: int
  body_text :: string

type_synonym transport = "request \<Rightarrow> response result"

definition response_json :: "response \<Rightarrow> pyval result" where
  "response_json r = json_decode (body_text r)"

definition llm_request :: "string \<Rightarrow> string \<Rightarrow> request" where
  "llm_request key prompt =
     \<lparr>url = ''https://api.openai.com/v1/chat/completions'',
      headers = [(''Authorization'', ''Bearer '' @ key),
                 (''Content-Type'', ''application/json'')],
      json = PDict [(''model'', PStr ''gpt-3.5-turbo''),
                    (''messages'',
                       PList [PDict [(''role'', PStr ''user''), (''content'', PStr prompt)]]),
                    (''temperature'', PFloat ''0.1'')]\<rparr>"

definition call_llm :: "transport \<Rightarrow> string \<Rightarrow> string \<Rightarrow> pyval result" where
  "call_llm post key prompt =
     and_then (post (llm_request key prompt))
       (\<lambda>r. if status_code r = 200 then
              and_then (response_json r) (\<lambda>j.
              and_then (py_getitem j (PStr ''choices'')) (\<lambda>choices.
              and_then (py_getitem choices (PInt 0)) (\<lambda>choice.
              and_then (py_getitem choice (PStr ''message'')) (\<lambda>m.
                py_getitem m (PStr ''content'')))))
            else Raises (PyExc Exception (Some (''API call failed: '' @ body_text r))))"

section \<open>The pipeline\<close>

text \<open>
  The agent's state. The prompts are the f-strings of the source: every line of a
  prompt begins after a line break and eight blanks of indentation.
\<close>

record agent =
  api_key :: string
  tools :: registry
  memory :: "pyval list"

definition prompt_lines :: "string list \<Rightarrow> string" where
  "prompt_lines ls = concat (map (\<lambda>l. CHR 0x0A # ''        '' @ l) ls)"

definition parse_prompt :: "string \<Rightarrow> string" where
  \<open>parse_prompt message =
     prompt_lines
       [''Parse the following user request into a structured task:'',
        [],
        ''User request: '' @ message,
        [],
        ''Return a JSON object with the following structure:'',
        ''{'',
        ''    "task_type": "search" or "calculate" or "weather" or "general",'',
        ''    "query": "the main query or question",'',
        ''    "parameters": {} # any additional parameters'',
        ''}'',
        []]\<close>

definition parse_task :: "transport \<Rightarrow> agent \<Rightarrow> string \<Rightarrow> pyval result" where
  "parse_task post self message =
     and_then (call_llm post (api_key self) (parse_prompt message)) json_loads"

definition plan_prompt :: "string \<Rightarrow> string" where
  \<open>plan_prompt task_json =
     prompt_lines
       [''Given the following task, plan the steps needed to complete it:'',
        [],
        ''Task: '' @ task_json,
        [],
        ''Return a JSON array of step objects with the following structure:'',
        ''['',
        ''    {'',
        ''        "tool": "name of the tool to use",'',
        ''        "parameters": {} # parameters for the tool'',
        ''    }'',
        '']'',
        []]\<close>

definition plan_steps :: "transport \<Rightarrow> agent \<Rightarrow> pyval \<Rightarrow> pyval result" where
  "plan_steps post self task =
     and_then (json_dumps task) (\<lambda>task_json.
     and_then (call_llm post (api_key self) (plan_prompt task_json)) json_loads)"

subsection \<open>The step executor\<close>

text \<open>
  One turn of the loop of \<^verbatim>\<open>_execute_steps\<close>, giving the entry appended to
  \<^verbatim>\<open>results\<close>. \<^verbatim>\<open>tool_name in self.tools\<close> raises \<^verbatim>\<open>TypeError\<close> for an unhashable
  name; a name that is not a string is no key of the registry.
\<close>

definition not_found :: "pyval \<Rightarrow> pyval \<Rightarrow> pyval result" where
  "not_found step tool_name =
     and_then (py_str tool_name) (\<lambda>name.
       Returns (PDict [(''step'', step),
                       (''error'',
                          PStr (''Tool '' @ [CHR 0x27] @ name @ [CHR 0x27] @ '' not found''))]))"

definition execute_step :: "registry \<Rightarrow> pyval \<Rightarrow> pyval result" where
  "execute_step reg step =
     and_then (py_getitem step (PStr ''tool'')) (\<lambda>tool_name.
     and_then (py_getitem step (PStr ''parameters'')) (\<lambda>parameters.
       case tool_name of
         PList _ \<Rightarrow> Raises (PyExc TypeError None)
       | PDict _ \<Rightarrow> Raises (PyExc TypeError None)
       | PStr name \<Rightarrow>
           (case reg name of
              Some t \<Rightarrow>
                and_then (call_tool t parameters) (\<lambda>tool_result.
                  Returns (PDict [(''step'', step), (''result'', tool_result)]))
            | None \<Rightarrow> not_found step tool_name)
       | _ \<Rightarrow> not_found step tool_name))"

text \<open>\<^verbatim>\<open>KeyError(k)\<close> for one of the two keys that the loop reads.\<close>

definition key_error :: "string \<Rightarrow> py_exception" where
  "key_error k = PyExc KeyError (Some ([CHR 0x27] @ k @ [CHR 0x27]))"

text \<open>The loop over the steps; an exception leaves it and the function.\<close>

fun execute_loop :: "registry \<Rightarrow> pyval list \<Rightarrow> pyval list \<Rightarrow> pyval list result" where
  "execute_loop reg [] results = Returns results"
| "execute_loop reg (step # steps) results =
     (case execute_step reg step of
        Returns outcome \<Rightarrow> execute_loop reg steps (results @ [outcome])
      | Raises e \<Rightarrow> Raises e
      | Outside \<Rightarrow> Outside)"

definition execute_steps :: "registry \<Rightarrow> pyval list \<Rightarrow> pyval result" where
  "execute_steps reg steps =
     and_then (execute_loop reg steps [])
       (\<lambda>results. Returns (PDict [(''results'', PList results)]))"

subsection \<open>The reply and \<^verbatim>\<open>chat\<close>\<close>

text \<open>\<^verbatim>\<open>self.memory[-10:]\<close> is the last ten entries, or all of them if there are fewer.\<close>

definition last10 :: "'a list \<Rightarrow> 'a list" where
  "last10 xs = drop (length xs - 10) xs"

definition generate_response :: "transport \<Rightarrow> agent \<Rightarrow> pyval \<Rightarrow> pyval result" where
  "generate_response post self execution_results =
     and_then (json_dumps execution_results) (\<lambda>results_json.
     and_then (json_dumps (PList (last10 (memory self)))) (\<lambda>memory_json.
       call_llm post (api_key self)
         (prompt_lines
            [''Given the following execution results, generate a helpful response for the user:'',
             [],
             ''Results: '' @ results_json,
             [],
             ''Prior conversation:'',
             memory_json,
             []])))"

text \<open>
  \<^verbatim>\<open>for step in steps\<close> walks a list, the keys of a dictionary or the characters of
  a string; anything else is not iterable.
\<close>

fun py_iter :: "pyval \<Rightarrow> pyval list result" where
  "py_iter (PList xs) = Returns xs"
| "py_iter (PDict kvs) = Returns (map (\<lambda>kv. PStr (fst kv)) kvs)"
| "py_iter (PStr s) = Returns (map (\<lambda>c. PStr [c]) s)"
| "py_iter _ = Raises (PyExc TypeError None)"

definition message_entry :: "string \<Rightarrow> pyval \<Rightarrow> pyval" where
  "message_entry role content = PDict [(''role'', PStr role), (''content'', content)]"

text \<open>The four stages of \<^verbatim>\<open>chat\<close> between its two appends to the memory.\<close>

definition pipeline :: "transport \<Rightarrow> agent \<Rightarrow> string \<Rightarrow> pyval result" where
  "pipeline post self message =
     and_then (parse_task post self message) (\<lambda>task.
     and_then (plan_steps post self task) (\<lambda>steps.
     and_then (and_then (py_iter steps) (execute_steps (tools self))) (\<lambda>result.
       generate_response post self result)))"

text \<open>
  How a call of \<^verbatim>\<open>chat\<close> ends, with the agent as the call leaves it: it returns the
  reply, or an exception passes to the caller.
\<close>

datatype chat_outcome =
    ChatReturns pyval agent
  | ChatRaises py_exception agent
  | ChatOutside

definition chat :: "transport \<Rightarrow> agent \<Rightarrow> string \<Rightarrow> chat_outcome" where
  "chat post self message =
     (let self1 = self\<lparr>memory := memory self @ [message_entry ''user'' (PStr message)]\<rparr>
      in case pipeline post self1 message of
           Returns reply \<Rightarrow>
             ChatReturns reply
               (self1\<lparr>memory := memory self1 @ [message_entry ''assistant'' reply]\<rparr>)
         | Raises e \<Rightarrow> ChatRaises e self1
         | Outside \<Rightarrow> ChatOutside)"

section \<open>Expressions without names\<close>





section \<open>Arithmetic expressions as they are written\<close>














section \<open>Sample inputs\<close>

text \<open>Steps as a planner may return them, used to run the executor below.\<close>

definition calc_step :: pyval where
  "calc_step =
     PDict [(''tool'', PStr ''calculate''),
            (''parameters'', PDict [(''expression'', PStr ''5*7'')])]"

definition unknown_step :: pyval where
  "unknown_step = PDict [(''tool'', PStr ''nope''), (''parameters'', PDict [])]"

definition weather_step :: pyval where
  "weather_step =
     PDict [(''tool'', PStr ''get_weather''),
            (''parameters'', PDict [(''location'', PStr ''Paris'')])]"

text \<open>A call of \<^verbatim>\<open>search_web\<close> without its \<^verbatim>\<open>query\<close> argument.\<close>

definition no_query_step :: pyval where
  "no_query_step = PDict [(''tool'', PStr ''search_web''), (''parameters'', PDict [])]"

text \<open>Steps without a \<^verbatim>\<open>"parameters"\<close> key and without a \<^verbatim>\<open>"tool"\<close> key.\<close>

definition no_parameters_step :: pyval where
  "no_parameters_step = PDict [(''tool'', PStr ''calculate'')]"

definition no_tool_step :: pyval where
  "no_tool_step = PDict [(''parameters'', PDict [])]"

text \<open>What the executor records for \<open>calc_step\<close> and for \<open>unknown_step\<close>.\<close>

definition calc_outcome :: pyval where
  "calc_outcome = PDict [(''step'', calc_step), (''result'', PDict [(''result'', PInt 35)])]"

definition unknown_outcome :: pyval where
  "unknown_outcome =
     PDict [(''step'', unknown_step),
            (''error'', PStr (''Tool '' @ [CHR 0x27] @ ''nope'' @ [CHR 0x27] @ '' not found''))]"

text \<open>
  A backend that gives every request the same answer, the body of a completion with one
  choice, and an agent with an empty memory.
\<close>

definition answer :: "int \<Rightarrow> string \<Rightarrow> transport" where
  "answer status text req = Returns \<lparr>status_code = status, body_text = text\<rparr>"

definition completion_body :: "string \<Rightarrow> string" where
  "completion_body content =
     json_encode
       (PDict [(''choices'',
                PList [PDict [(''message'',
                               PDict [(''role'', PStr ''assistant''),
                                      (''content'', PStr content)])]])])"

definition new_agent :: agent where
  "new_agent = \<lparr>api_key = ''sk-test'', tools = agent_tools, memory = []\<rparr>"

text \<open>
  The text of a task in the structure that the parse prompt asks for, with the given
  \<^verbatim>\<open>task_type\<close> and \<^verbatim>\<open>query\<close>; \<open>plain\<close> strings need no escape in JSON.
\<close>

definition task_text :: "string \<Rightarrow> string \<Rightarrow> string" where
  \<open>task_text task_type query =
     ''{"task_type": "'' @ task_type @ ''", "query": "'' @ query @ ''", "parameters": {}}''\<close>

definition plain :: "string \<Rightarrow> bool" where
  "plain s = list_all (\<lambda>c. c \<noteq> CHR 0x22 \<and> c \<noteq> CHR 0x5C \<and> 32 \<le> (of_char c :: nat)) s"




section \<open>Properties of the step executor\<close>






lemma execute_loop_append:
  "execute_loop reg before acc = Returns rs \<Longrightarrow>
   execute_loop reg (before @ rest) acc = execute_loop reg rest rs"
  by (induction before arbitrary: acc) (auto split: result.splits)


lemma run_calc_step: "execute_step agent_tools calc_step = Returns calc_outcome"
  by code_simp



text \<open>An exception in one turn of the loop ends \<^verbatim>\<open>_execute_steps\<close> with that exception.\<close>

lemma execute_steps_abort:
  assumes "execute_loop reg before [] = Returns finished"
    and "execute_step reg step = Raises e"
  shows "execute_steps reg (before @ step # rest) = Raises e"
  using assms by (simp add: execute_steps_def execute_loop_append)

text \<open>
  Claim C3. For a step whose tool name is no key of the registry, the executor does not
  raise: it records the step with the error text \<^verbatim>\<open>Tool '<name>' not found\<close>, and
  the loop goes on with the remaining steps.
\<close>

theorem unknown_tool_recorded:
  assumes "step = PDict kvs"
    and "map_of kvs ''tool'' = Some (PStr name)"
    and "map_of kvs ''parameters'' = Some parameters"
    and "reg name = None"
  shows "execute_step reg step =
           Returns (PDict [(''step'', step),
                           (''error'', PStr (''Tool '' @ [CHR 0x27] @ name @ [CHR 0x27] @ '' not found''))]) \<and>
         execute_loop reg (step # rest) results =
           execute_loop reg rest
             (results @
              [PDict [(''step'', step),
                      (''error'', PStr (''Tool '' @ [CHR 0x27] @ name @ [CHR 0x27] @ '' not found''))]])"
proof -
  have "execute_step reg step =
           Returns (PDict [(''step'', step),
                           (''error'', PStr (''Tool '' @ [CHR 0x27] @ name @ [CHR 0x27] @ '' not found''))])"
    using assms by (simp add: execute_step_def not_found_def)
  then show ?thesis by simp
qed

theorem unknown_tool_recorded_witness:
  "execute_step agent_tools unknown_step = Returns unknown_outcome \<and>
   execute_loop agent_tools [unknown_step, calc_step] [] =
     Returns [unknown_outcome, calc_outcome]"
proof -
  have "agent_tools ''nope'' = None"
    by (simp add: agent_tools_def)
  from unknown_tool_recorded [of unknown_step "[(''tool'', PStr ''nope''), (''parameters'', PDict [])]"
      "''nope''" "PDict []" agent_tools "[calc_step]" "[]", OF _ _ _ this]
  show ?thesis
    by (simp add: unknown_step_def [symmetric] unknown_outcome_def run_calc_step)
qed

text \<open>
  Claim C10. A step mapping without the key \<^verbatim>\<open>"tool"\<close> or without the key
  \<^verbatim>\<open>"parameters"\<close> makes \<^verbatim>\<open>_execute_steps\<close> raise \<^verbatim>\<open>KeyError\<close> for the missing
  key: no outcome is recorded for the step, and the batch is lost whatever the steps
  before it gave and whatever steps follow.
\<close>

theorem missing_key_raises:
  assumes "step = PDict kvs"
    and "map_of kvs ''tool'' = None \<or> map_of kvs ''parameters'' = None"
  shows "\<exists>k. (k = ''tool'' \<or> k = ''parameters'') \<and> map_of kvs k = None \<and>
           execute_step reg step = Raises (key_error k) \<and>
           execute_loop reg (step # rest) results = Raises (key_error k) \<and>
           (\<forall>before finished. execute_loop reg before [] = Returns finished \<longrightarrow>
              execute_steps reg (before @ step # rest) = Raises (key_error k))"
proof (cases "map_of kvs ''tool''")
  case None
  then have "execute_step reg step = Raises (key_error ''tool'')"
    using assms(1) by (simp add: execute_step_def key_error_def repr_str_def)
  with None show ?thesis
    by (intro exI [of _ "''tool''"]) (simp add: execute_steps_abort)
next
  case (Some tool_name)
  with assms(2) have p: "map_of kvs ''parameters'' = None" by simp
  with Some have "execute_step reg step = Raises (key_error ''parameters'')"
    using assms(1) by (simp add: execute_step_def key_error_def repr_str_def)
  with p show ?thesis
    by (intro exI [of _ "''parameters''"]) (simp add: execute_steps_abort)
qed

theorem missing_key_raises_witness:
  "execute_steps agent_tools [calc_step, no_parameters_step, weather_step] =
     Raises (key_error ''parameters'') \<and>
   execute_steps agent_tools [no_tool_step] = Raises (key_error ''tool'')"
proof -
  have before: "execute_loop agent_tools [calc_step] [] = Returns [calc_outcome]"
    by (simp add: run_calc_step)
  have "map_of [(''tool'', PStr ''calculate'')] ''tool'' = None \<or>
        map_of [(''tool'', PStr ''calculate'')] ''parameters'' = None"
    by simp
  from missing_key_raises [OF no_parameters_step_def this, of agent_tools "[weather_step]" "[]"]
  obtain k where k: "k = ''tool'' \<or> k = ''parameters''"
      "map_of [(''tool'', PStr ''calculate'')] k = None"
      "\<forall>before finished. execute_loop agent_tools before [] = Returns finished \<longrightarrow>
         execute_steps agent_tools (before @ no_parameters_step # [weather_step]) =
           Raises (key_error k)"
    by blast
  from k(1,2) have "k = ''parameters''" by auto
  with k(3) before have first:
    "execute_steps agent_tools ([calc_step] @ no_parameters_step # [weather_step]) =
       Raises (key_error ''parameters'')"
    by blast
  have "map_of [(''parameters'', PDict [])] ''tool'' = None \<or>
        map_of [(''parameters'', PDict [])] ''parameters'' = None"
    by simp
  from missing_key_raises [OF no_tool_step_def this, of agent_tools "[]" "[]"]
  obtain k' where k': "k' = ''tool'' \<or> k' = ''parameters''"
      "map_of [(''parameters'', PDict [])] k' = None"
      "\<forall>before finished. execute_loop agent_tools before [] = Returns finished \<longrightarrow>
         execute_steps agent_tools (before @ no_tool_step # []) = Raises (key_error k')"
    by blast
  from k'(1,2) have "k' = ''tool''" by auto
  moreover have "execute_loop agent_tools [] [] = Returns []" by simp
  ultimately have "execute_steps agent_tools ([] @ no_tool_step # []) = Raises (key_error ''tool'')"
    using k'(3) by blast
  with first show ?thesis by simp
qed

text \<open>
  Claim C2 asks that an exception raised by a registered tool be caught and recorded as
  the step's error. The loop has no handler: with \<^verbatim>\<open>search_web\<close> called without its
  argument, the \<^verbatim>\<open>TypeError\<close> leaves \<^verbatim>\<open>_execute_steps\<close> and the following step is
  never run.
\<close>

theorem tool_exception_aborts_batch:
  "agent_tools ''search_web'' = Some \<lparr>param = ''query'', body = search_web\<rparr> \<and>
   call_tool \<lparr>param = ''query'', body = search_web\<rparr> (PDict []) = Raises (PyExc TypeError None) \<and>
   execute_steps agent_tools [no_query_step, weather_step] = Raises (PyExc TypeError None)"
  by (simp add: agent_tools_def call_tool_def execute_steps_def execute_step_def no_query_step_def)

text \<open>
  Claim C2, as the code has it. For a step whose tool is in the registry, an exception
  raised by the call of the tool is not caught: it ends the loop and leaves
  \<^verbatim>\<open>_execute_steps\<close>, so no batch is returned.
\<close>

theorem tool_exception_propagates:
  assumes "step = PDict kvs"
    and "map_of kvs ''tool'' = Some (PStr name)"
    and "map_of kvs ''parameters'' = Some parameters"
    and "reg name = Some t"
    and "call_tool t parameters = Raises e"
  shows "execute_step reg step = Raises e \<and>
         execute_loop reg (step # rest) results = Raises e \<and>
         (\<forall>before finished. execute_loop reg before [] = Returns finished \<longrightarrow>
            execute_steps reg (before @ step # rest) = Raises e)"
proof -
  have "execute_step reg step = Raises e"
    using assms by (simp add: execute_step_def)
  then show ?thesis
    by (simp add: execute_steps_abort)
qed

theorem tool_exception_propagates_witness:
  "execute_steps agent_tools [calc_step, no_query_step, weather_step] =
     Raises (PyExc TypeError None)"
proof -
  have before: "execute_loop agent_tools [calc_step] [] = Returns [calc_outcome]"
    by (simp add: run_calc_step)
  have reg: "agent_tools ''search_web'' = Some \<lparr>param = ''query'', body = search_web\<rparr>"
    by (simp add: agent_tools_def)
  have call: "call_tool \<lparr>param = ''query'', body = search_web\<rparr> (PDict []) =
                Raises (PyExc TypeError None)"
    by (simp add: call_tool_def)
  have tool: "map_of [(''tool'', PStr ''search_web''), (''parameters'', PDict [])] ''tool'' =
                Some (PStr ''search_web'')"
    and parameters: "map_of [(''tool'', PStr ''search_web''), (''parameters'', PDict [])]
                ''parameters'' = Some (PDict [])"
    by simp_all
  from tool_exception_propagates [where reg = agent_tools and name = "''search_web''"
      and rest = "[weather_step]" and results = "[]",
      OF no_query_step_def tool parameters reg call]
  have "\<forall>before finished. execute_loop agent_tools before [] = Returns finished \<longrightarrow>
          execute_steps agent_tools (before @ no_query_step # [weather_step]) =
            Raises (PyExc TypeError None)"
    by simp
  with before have "execute_steps agent_tools ([calc_step] @ no_query_step # [weather_step]) =
            Raises (PyExc TypeError None)"
    by blast
  then show ?thesis by simp
qed

section \<open>Properties of the arithmetic tool\<close>



lemma eval_import:
  "eval_source ''import os'' = Raises (PyExc SyntaxError (Some syntax_error_text))"
  by code_simp

lemma eval_floor_division: "eval_source ''7 // 2'' = Returns (PInt 3)"
  by code_simp

subsection \<open>Decimal literals\<close>










subsection \<open>Tokens of a written expression\<close>







subsection \<open>Parsing and evaluating a written expression\<close>










subsection \<open>Expressions without names\<close>



























text \<open>
  Claim C6 says that the tool accepts only numbers, \<^verbatim>\<open>+ - * /\<close> and parentheses.
  \<^verbatim>\<open>calculate\<close> uses \<^verbatim>\<open>eval\<close>, which knows all of Python's operators: the remainder
  \<^verbatim>\<open>7 % 2\<close> is evaluated and returned.
\<close>

theorem calculate_accepts_modulo:
  "calculate (PStr ''7 % 2'') = Returns (PDict [(''result'', PInt 1)])"
  by code_simp

text \<open>
  Claim C6, as the code has it. Whatever value \<^verbatim>\<open>eval\<close> gives for the expression is
  returned as the result; no grammar is checked first. \<^verbatim>\<open>import os\<close> is no expression:
  it is not executed, \<^verbatim>\<open>eval\<close> raises \<^verbatim>\<open>SyntaxError\<close>, and \<^verbatim>\<open>calculate\<close> returns the
  text of that error.
\<close>

theorem calculate_hands_to_eval:
  "(\<forall>v. py_eval e = Returns v \<longrightarrow> calculate e = Returns (PDict [(''result'', v)])) \<and>
   py_eval (PStr ''import os'') = Raises (PyExc SyntaxError (Some syntax_error_text)) \<and>
   calculate (PStr ''import os'') = Returns (PDict [(''error'', PStr syntax_error_text)])"
  by (simp add: calculate_def eval_import)

theorem calculate_hands_to_eval_witness:
  "py_eval (PStr ''7 // 2'') = Returns (PInt 3) \<and>
   calculate (PStr ''7 // 2'') = Returns (PDict [(''result'', PInt 3)])"
  using calculate_hands_to_eval [of "PStr ''7 // 2''"] eval_floor_division by simp

section \<open>Properties of the language-model client\<close>

text \<open>
  Claim C9. When the backend answers with status 200, \<^verbatim>\<open>_call_llm\<close> returns the content
  of the message of the first choice as it is; for any other status it raises an exception
  that carries the text of the response, and returns nothing.
\<close>

theorem call_llm_by_status:
  assumes "post (llm_request key prompt) = Returns r"
  shows "(status_code r = 200 \<and> response_json r = Returns (PDict reply) \<and>
          map_of reply ''choices'' = Some (PList (PDict choice # others)) \<and>
          map_of choice ''message'' = Some (PDict msg) \<and>
          map_of msg ''content'' = Some content \<longrightarrow>
            call_llm post key prompt = Returns content) \<and>
         (status_code r \<noteq> 200 \<longrightarrow>
            call_llm post key prompt =
              Raises (PyExc Exception (Some (''API call failed: '' @ body_text r))))"
  using assms by (simp add: call_llm_def seq_index_def)

lemma decode_completion:
  "json_decode (completion_body ''The answer is 35.'') =
     Returns (PDict [(''choices'',
                PList [PDict [(''message'',
                               PDict [(''role'', PStr ''assistant''),
                                      (''content'', PStr ''The answer is 35.'')])]])])"
  by code_simp

theorem call_llm_by_status_witness:
  "call_llm (answer 200 (completion_body ''The answer is 35.'')) ''sk-test'' ''Hi'' =
     Returns (PStr ''The answer is 35.'') \<and>
   call_llm (answer 503 ''Service Unavailable'') ''sk-test'' ''Hi'' =
     Raises (PyExc Exception (Some ''API call failed: Service Unavailable''))"
proof -
  have ok: "answer 200 (completion_body ''The answer is 35.'') (llm_request ''sk-test'' ''Hi'') =
      Returns \<lparr>status_code = 200, body_text = completion_body ''The answer is 35.''\<rparr>"
    by (simp add: answer_def)
  have down: "answer 503 ''Service Unavailable'' (llm_request ''sk-test'' ''Hi'') =
      Returns \<lparr>status_code = 503, body_text = ''Service Unavailable''\<rparr>"
    by (simp add: answer_def)
  have "call_llm (answer 200 (completion_body ''The answer is 35.'')) ''sk-test'' ''Hi'' =
     Returns (PStr ''The answer is 35.'')"
    using call_llm_by_status [where post = "answer 200 (completion_body ''The answer is 35.'')"
        and key = "''sk-test''" and prompt = "''Hi''"
        and reply = "[(''choices'',
                PList [PDict [(''message'',
                               PDict [(''role'', PStr ''assistant''),
                                      (''content'', PStr ''The answer is 35.'')])]])]"
        and choice = "[(''message'', PDict [(''role'', PStr ''assistant''),
                                      (''content'', PStr ''The answer is 35.'')])]"
        and others = "[]"
        and msg = "[(''role'', PStr ''assistant''), (''content'', PStr ''The answer is 35.'')]"
        and content = "PStr ''The answer is 35.''", OF ok]
    by (simp add: response_json_def decode_completion)
  moreover have "call_llm (answer 503 ''Service Unavailable'') ''sk-test'' ''Hi'' =
     Raises (PyExc Exception (Some ''API call failed: Service Unavailable''))"
    using call_llm_by_status [where post = "answer 503 ''Service Unavailable''"
        and key = "''sk-test''" and prompt = "''Hi''", OF down]
    by simp
  ultimately show ?thesis by simp
qed

section \<open>Properties of the task parser\<close>

text \<open>A string without quote, backslash or control character is read up to the quote.\<close>

lemma scan_string_plain:
  "plain s \<Longrightarrow> scan_string (s @ CHR 0x22 # rest) = Some (s, rest)"
proof (induction s)
  case Nil
  then show ?case by (cases rest) simp_all
next
  case (Cons c s)
  then have c: "c \<noteq> CHR 0x22" "c \<noteq> CHR 0x5C" "\<not> of_char c < (32::nat)"
    and ih: "scan_string (s @ CHR 0x22 # rest) = Some (s, rest)"
    by (auto simp: plain_def)
  obtain d ds where "s @ CHR 0x22 # rest = d # ds" by (cases s) auto
  with ih c show ?case by simp
qed

text \<open>
  The decoder returns the task of a \<open>task_text\<close> with its fields as they are written,
  whatever the \<^verbatim>\<open>task_type\<close> is.
\<close>

lemma json_decode_task_text:
  assumes "plain t" and "plain q"
  shows "json_decode (task_text t q) =
     Returns (PDict [(''task_type'', PStr t), (''query'', PStr q), (''parameters'', PDict [])])"
proof -
  have "5 \<le> 2 * length (task_text t q) + 2"
    by (simp add: task_text_def)
  then have "2 * length (task_text t q) + 2 =
      Suc (Suc (Suc (Suc (Suc (2 * length (task_text t q) + 2 - 5)))))"
    by simp
  then obtain k where k: "2 * length (task_text t q) + 2 = Suc (Suc (Suc (Suc (Suc k))))"
    by blast
  have ws: "skip_ws (task_text t q) = task_text t q"
    by (simp add: skip_ws_def task_text_def)
  have "scan_once (Suc (Suc (Suc (Suc (Suc k))))) JValue (task_text t q) =
     Some (PDict [(''task_type'', PStr t), (''query'', PStr q), (''parameters'', PDict [])], [])"
    using assms
    by (simp add: task_text_def starts_with_def skip_ws_def scan_string_plain dict_set_def)
  then show ?thesis
    unfolding json_decode_def ws k
    by (simp add: task_text_def skip_ws_def begins_value_def)
qed

text \<open>
  Claim C4 says that a task whose \<^verbatim>\<open>task_type\<close> is absent or is none of the four
  literals makes the parser fail. \<^verbatim>\<open>_parse_task\<close> returns what \<^verbatim>\<open>json.loads\<close> gives
  and looks at no field: a task of type \<^verbatim>\<open>bogus\<close> and the empty object are returned.
\<close>

theorem unvalidated_task_returned:
  "parse_task (answer 200 (completion_body (task_text ''bogus'' ''q''))) new_agent ''hello'' =
     Returns (PDict [(''task_type'', PStr ''bogus''), (''query'', PStr ''q''),
                     (''parameters'', PDict [])]) \<and>
   parse_task (answer 200 (completion_body ''{}'')) new_agent ''hello'' = Returns (PDict [])"
  by code_simp

text \<open>
  Claim C4, as the code has it. When the backend's text decodes as JSON, the parser
  returns the decoded value with its fields unchanged and validates nothing: a text in
  the structure of the prompt gives a task with the \<^verbatim>\<open>task_type\<close> and the
  \<^verbatim>\<open>query\<close> that it holds, whatever they are. When the decoder raises, the exception
  leaves the parser; a text that does not begin a JSON value raises
  \<^verbatim>\<open>JSONDecodeError\<close>.
\<close>

theorem parse_task_returns_decoded:
  assumes "call_llm post (api_key self) (parse_prompt message) = Returns (PStr reply)"
  shows "(\<forall>v. json_decode reply = Returns v \<longrightarrow> parse_task post self message = Returns v) \<and>
         (\<forall>e. json_decode reply = Raises e \<longrightarrow> parse_task post self message = Raises e) \<and>
         (\<forall>t q. reply = task_text t q \<and> plain t \<and> plain q \<longrightarrow>
            parse_task post self message =
              Returns (PDict [(''task_type'', PStr t), (''query'', PStr q),
                              (''parameters'', PDict [])])) \<and>
         (\<not> begins_value (skip_ws reply) \<longrightarrow>
            parse_task post self message = Raises (PyExc JSONDecodeError None))"
proof -
  have "parse_task post self message = json_decode reply"
    using assms by (simp add: parse_task_def)
  then show ?thesis
    by (simp add: json_decode_task_text) (simp add: json_decode_def)
qed

lemma llm_says_search:
  "call_llm (answer 200 (completion_body (task_text ''search'' ''cats''))) (api_key new_agent)
     (parse_prompt ''find cats'') = Returns (PStr (task_text ''search'' ''cats''))"
  by code_simp

lemma llm_says_sorry:
  "call_llm (answer 200 (completion_body ''Sorry, no.'')) (api_key new_agent)
     (parse_prompt ''find cats'') = Returns (PStr ''Sorry, no.'')"
  by code_simp

theorem parse_task_returns_decoded_witness:
  "parse_task (answer 200 (completion_body (task_text ''search'' ''cats''))) new_agent
     ''find cats'' =
     Returns (PDict [(''task_type'', PStr ''search''), (''query'', PStr ''cats''),
                     (''parameters'', PDict [])]) \<and>
   parse_task (answer 200 (completion_body ''Sorry, no.'')) new_agent ''find cats'' =
     Raises (PyExc JSONDecodeError None)"
proof -
  have "plain ''search''" and "plain ''cats''"
    by (simp_all add: plain_def)
  with parse_task_returns_decoded [OF llm_says_search]
  have found: "parse_task (answer 200 (completion_body (task_text ''search'' ''cats''))) new_agent
     ''find cats'' =
     Returns (PDict [(''task_type'', PStr ''search''), (''query'', PStr ''cats''),
                     (''parameters'', PDict [])])"
    by blast
  have "\<not> begins_value (skip_ws ''Sorry, no.'')"
    by (simp add: begins_value_def skip_ws_def)
  with parse_task_returns_decoded [OF llm_says_sorry]
  have "parse_task (answer 200 (completion_body ''Sorry, no.'')) new_agent ''find cats'' =
     Raises (PyExc JSONDecodeError None)"
    by blast
  with found show ?thesis by simp
qed

section \<open>Properties of \<^verbatim>\<open>chat\<close>\<close>





end
